theory Spec2Isabelle
  imports Complex_Main "HOL-Library.AList"
begin

section \<open>Python built-ins used by the ledger\<close>

text \<open>
  The program (\<^verbatim>\<open>src/stocker/tmp.py\<close>) parses a timing string with \<^verbatim>\<open>str.split('-')\<close>
  and \<^verbatim>\<open>int(_)\<close>. Both are built-ins of the language; they are written out here as
  executable functions over strings of code points below 256.

  Exceptions are values. \<^verbatim>\<open>assert c\<close> raises \<^verbatim>\<open>AssertionError\<close> with no argument,
  \<^verbatim>\<open>assert c, v\<close> raises it with the argument \<^verbatim>\<open>v\<close>; \<^verbatim>\<open>int\<close> raises
  \<^verbatim>\<open>ValueError\<close>; a missing dictionary key raises \<^verbatim>\<open>KeyError\<close> with the key;
  converting an int too large for a float raises \<^verbatim>\<open>OverflowError\<close>.
  (Assertions are modelled as enabled, the interpreter's default.)
\<close>

datatype error = AssertionError "int option" | ValueError | KeyError int | OverflowError

text \<open>\<^verbatim>\<open>s.split(sep)\<close> for a one-character separator: never empty, one more field than
  there are separators.\<close>

fun split_py :: "char \<Rightarrow> string \<Rightarrow> string list" where
  "split_py sep [] = [[]]"
| "split_py sep (c # cs) =
     (if c = sep then [] # split_py sep cs
      else (c # hd (split_py sep cs)) # tl (split_py sep cs))"

text \<open>The characters \<^verbatim>\<open>int\<close> skips at both ends of its argument: tab, line feed, vertical
  tab, form feed, carriage return, space, and (beyond ASCII) NEL and the no-break space.\<close>

definition isspace_py :: "char \<Rightarrow> bool" where
  "isspace_py c \<longleftrightarrow>
     c \<in> set [CHR 0x09, CHR 0x0A, CHR 0x0B, CHR 0x0C, CHR 0x0D, CHR 0x20, CHR 0x85, CHR 0xA0]"

definition strip_py :: "string \<Rightarrow> string" where
  "strip_py s = rev (dropWhile isspace_py (rev (dropWhile isspace_py s)))"

definition digit_py :: "char \<Rightarrow> nat option" where
  "digit_py c = map_of (zip ''0123456789'' [0, 1, 2, 3, 4, 5, 6, 7, 8, 9]) c"

text \<open>The digits after the first one: a single underscore may stand between two digits.\<close>

fun digits_py :: "nat \<Rightarrow> string \<Rightarrow> nat option" where
  "digits_py acc [] = Some acc"
| "digits_py acc (c # cs) =
     (case digit_py c of
        Some d \<Rightarrow> digits_py (10 * acc + d) cs
      | None \<Rightarrow>
          if c = CHR ''_'' then
            (case cs of
               [] \<Rightarrow> None
             | c' # cs' \<Rightarrow>
                 (case digit_py c' of
                    Some d \<Rightarrow> digits_py (10 * acc + d) cs'
                  | None \<Rightarrow> None))
          else None)"

fun number_py :: "string \<Rightarrow> nat option" where
  "number_py [] = None"
| "number_py (c # cs) = (case digit_py c of None \<Rightarrow> None | Some d \<Rightarrow> digits_py d cs)"

text \<open>\<^verbatim>\<open>int(s)\<close> in base ten; \<open>None\<close> is \<^verbatim>\<open>ValueError\<close>. Integers are unbounded; the
  interpreter's configurable limit on the number of digits of one literal is left out.\<close>

definition int_py :: "string \<Rightarrow> int option" where
  "int_py s =
     (case strip_py s of
        [] \<Rightarrow> None
      | c # cs \<Rightarrow>
          if c = CHR ''+'' then map_option int (number_py cs)
          else if c = CHR ''-'' then map_option (\<lambda>n. - int n) (number_py cs)
          else map_option int (number_py (c # cs)))"

section \<open>Python floats\<close>

text \<open>
  A Python float is an IEEE 754 binary64 number: a finite value (a real; the two zeros are
  not told apart, \<^verbatim>\<open>==\<close> does not tell them apart either), an infinity or a NaN. Every
  arithmetic operation returns the exact result rounded to the nearest float, ties to the
  even mantissa; a result of magnitude \<open>2^1024\<close> or more after rounding is an infinity.
\<close>

datatype pyfloat = Num real | PInf | NInf | NaN

definition pow2 :: "int \<Rightarrow> real" where
  "pow2 e = (if 0 \<le> e then 2 ^ nat e else 1 / 2 ^ nat (- e))"

text \<open>The binary exponent of a positive real, searched upwards from 0 for \<open>x \<ge> 1\<close> and
  downwards otherwise; below \<open>2^-1022\<close> (the subnormal range) it stays at \<open>-1022\<close>.\<close>

function expo_up :: "real \<Rightarrow> int \<Rightarrow> int" where
  "expo_up x e = (if e < 1024 \<and> pow2 (e + 1) \<le> x then expo_up x (e + 1) else e)"
  by pat_completeness auto
termination
  by (relation "measure (\<lambda>(x, e). nat (1024 - e))") auto

function expo_down :: "real \<Rightarrow> int \<Rightarrow> int" where
  "expo_down x e = (if - 1022 < e \<and> x < pow2 e then expo_down x (e - 1) else e)"
  by pat_completeness auto
termination
  by (relation "measure (\<lambda>(x, e). nat (e + 1022))") auto

declare expo_up.simps [simp del] expo_down.simps [simp del]

definition expo :: "real \<Rightarrow> int" where
  "expo x = (if 1 \<le> x then expo_up x 0 else expo_down x 0)"

text \<open>Rounding to the nearest integer, ties to the even one.\<close>

definition rhe :: "real \<Rightarrow> int" where
  "rhe y =
     (let n = \<lfloor>y\<rfloor>; r = y - of_int n
      in if r < 1 / 2 then n
         else if 1 / 2 < r then n + 1
         else if even n then n else n + 1)"

text \<open>The float nearest to a real: what a numeric literal, a number read from a data file
  or the exact result of an operation becomes. The mantissa has 53 bits, so the spacing of
  floats around \<open>x\<close> is \<open>2^(expo x - 52)\<close>.\<close>

definition float_py :: "real \<Rightarrow> pyfloat" where
  "float_py x =
     (if x = 0 then Num 0
      else
        (let q = pow2 (expo \<bar>x\<bar> - 52);
             y = of_int (rhe (x / q)) * q
         in if pow2 1024 \<le> \<bar>y\<bar> then (if 0 < x then PInf else NInf) else Num y))"

text \<open>\<^verbatim>\<open>float(n)\<close> for an int, as the mixed operations \<^verbatim>\<open>float * int\<close> and
  \<^verbatim>\<open>int - float\<close> apply it to their int operand.\<close>

definition float_of_int_py :: "int \<Rightarrow> error + pyfloat" where
  "float_of_int_py n =
     (case float_py (of_int n) of
        Num y \<Rightarrow> Inr (Num y)
      | _ \<Rightarrow> Inl OverflowError)"

fun neg_py :: "pyfloat \<Rightarrow> pyfloat" where
  "neg_py (Num x) = Num (- x)"
| "neg_py PInf = NInf"
| "neg_py NInf = PInf"
| "neg_py NaN = NaN"

fun add_py :: "pyfloat \<Rightarrow> pyfloat \<Rightarrow> pyfloat" where
  "add_py NaN b = NaN"
| "add_py a NaN = NaN"
| "add_py (Num x) (Num y) = float_py (x + y)"
| "add_py PInf NInf = NaN"
| "add_py NInf PInf = NaN"
| "add_py PInf b = PInf"
| "add_py NInf b = NInf"
| "add_py (Num x) b = b"

definition sub_py :: "pyfloat \<Rightarrow> pyfloat \<Rightarrow> pyfloat" where
  "sub_py a b = add_py a (neg_py b)"

fun sign_inf :: "bool \<Rightarrow> pyfloat" where
  "sign_inf True = PInf"
| "sign_inf False = NInf"

fun mul_py :: "pyfloat \<Rightarrow> pyfloat \<Rightarrow> pyfloat" where
  "mul_py NaN b = NaN"
| "mul_py a NaN = NaN"
| "mul_py (Num x) (Num y) = float_py (x * y)"
| "mul_py (Num x) PInf = (if x = 0 then NaN else sign_inf (0 < x))"
| "mul_py (Num x) NInf = (if x = 0 then NaN else sign_inf (x < 0))"
| "mul_py PInf (Num y) = (if y = 0 then NaN else sign_inf (0 < y))"
| "mul_py NInf (Num y) = (if y = 0 then NaN else sign_inf (y < 0))"
| "mul_py PInf PInf = PInf"
| "mul_py PInf NInf = NInf"
| "mul_py NInf PInf = NInf"
| "mul_py NInf NInf = PInf"

section \<open>Timing identifiers\<close>

text \<open>\<^verbatim>\<open>Transaction.timing2id\<close> (lines 16-21).\<close>

definition timing2id :: "string \<Rightarrow> error + int" where
  "timing2id timing =
     (let tmp = split_py CHR ''-'' timing in
      if length tmp \<noteq> 3 then Inl (AssertionError None)
      else
        (case those (map int_py tmp) of
           None \<Rightarrow> Inl ValueError
         | Some tmp' \<Rightarrow> Inr (tmp' ! 0 * 10 ^ 6 + tmp' ! 1 * 10 ^ 2 + tmp' ! 2)))"

section \<open>Transactions\<close>

text \<open>
  A transaction keeps a reference to its stock and reads the three rates through it. The
  stock in turn owns its buys, so the reference is modelled by the stock's own attributes
  (name, id and rates, which the program sets once in \<^verbatim>\<open>Stock.__init__\<close> and never
  assigns again); \<open>Stock\<close> below extends this record by the dictionary of buys.

  Quantities are Python ints. Prices and rates are Python floats (the data schema of the
  specification). A field of type \<open>real\<close> holds the number as it is written in the
  program or the data file; the float that Python holds for it is \<^const>\<open>float_py\<close> of
  the field, and all arithmetic on prices and rates below is float arithmetic. (An int
  given as a price or rate is read as the float of the same value, which gives the values
  of Python's int arithmetic as long as these stay below \<open>2^53\<close> in magnitude; an
  infinite price or rate is any real of magnitude \<open>2^1024\<close> or more; a NaN given as a
  price or rate is outside the model.)
\<close>

record StockInfo =
  name :: string
  id_stock :: int
  commission :: real
  stamp_duty :: real
  transfer_fee :: real

record Transaction =
  stock :: StockInfo
  timing :: string
  id_tr :: int
  price :: real
  quantity :: int

type_synonym SellTransaction = Transaction

record BuyTransaction = Transaction +
  empty_flag :: bool
  sells :: "SellTransaction list"

record Stock = StockInfo +
  tr_recorder :: "(int \<times> BuyTransaction) list"

text \<open>\<^verbatim>\<open>Transaction.__init__\<close> (lines 6-14). The three \<^verbatim>\<open>isinstance\<close> assertions are
  the types of the arguments.\<close>

definition Transaction_init :: "StockInfo \<Rightarrow> string \<Rightarrow> real \<Rightarrow> int \<Rightarrow> error + Transaction" where
  "Transaction_init stk tim pr qty =
     (case timing2id tim of
        Inl e \<Rightarrow> Inl e
      | Inr i \<Rightarrow> Inr \<lparr>stock = stk, timing = tim, id_tr = i, price = pr, quantity = qty\<rparr>)"

text \<open>\<^verbatim>\<open>fee\<close> (lines 23-25): the float \<^verbatim>\<open>price\<close> times the int \<^verbatim>\<open>quantity\<close>. The int is
  converted first, which raises when it is too large.\<close>

definition fee :: "'a Transaction_scheme \<Rightarrow> error + pyfloat" where
  "fee self =
     (case float_of_int_py (quantity self) of
        Inl e \<Rightarrow> Inl e
      | Inr q \<Rightarrow> Inr (mul_py (float_py (price self)) q))"

text \<open>\<^verbatim>\<open>fee_final\<close> and \<^verbatim>\<open>service_charge\<close> (lines 27-37) call \<^verbatim>\<open>self.service_percent\<close>,
  which each subclass overrides; the override is the first argument. (The base class's own
  \<^verbatim>\<open>service_percent\<close> raises \<^verbatim>\<open>NotImplementedError\<close>; the program never instantiates
  the base class.) The \<^verbatim>\<open>1\<close> of line 29 is an int and becomes the float 1.\<close>

definition fee_final ::
    "('a Transaction_scheme \<Rightarrow> pyfloat) \<Rightarrow> 'a Transaction_scheme \<Rightarrow> error + pyfloat" where
  "fee_final service_percent self =
     (case fee self of
        Inl e \<Rightarrow> Inl e
      | Inr f \<Rightarrow> Inr (mul_py f (sub_py (Num 1) (service_percent self))))"


text \<open>\<^verbatim>\<open>BuyTransaction\<close> (lines 39-78).\<close>

definition BuyTransaction_init :: "StockInfo \<Rightarrow> string \<Rightarrow> real \<Rightarrow> int \<Rightarrow> error + BuyTransaction" where
  "BuyTransaction_init stk tim pr qty =
     (case Transaction_init stk tim pr qty of
        Inl e \<Rightarrow> Inl e
      | Inr t \<Rightarrow>
          Inr \<lparr>stock = stock t, timing = timing t, id_tr = id_tr t, price = price t,
               quantity = quantity t, empty_flag = False, sells = []\<rparr>)"

definition BuyTransaction_service_percent :: "BuyTransaction \<Rightarrow> pyfloat" where
  "BuyTransaction_service_percent self =
     add_py (float_py (commission (stock self))) (float_py (transfer_fee (stock self)))"

text \<open>\<^verbatim>\<open>quantity_left\<close> (lines 68-74) is a property with a side effect: it stores the
  \<^verbatim>\<open>empty\<close> flag. It returns the value and the updated object.\<close>

definition quantity_left :: "BuyTransaction \<Rightarrow> int \<times> BuyTransaction" where
  "quantity_left self =
     (let delta = fold (\<lambda>sell delta. delta - quantity sell) (sells self) (quantity self)
      in (delta, self\<lparr>empty_flag := (delta = 0)\<rparr>))"

text \<open>\<^verbatim>\<open>BuyTransaction.sell\<close> (lines 76-78): append, then assert. The object is returned
  on both paths, since the append has happened when the assertion is evaluated; the
  assertion's argument evaluates \<^verbatim>\<open>quantity_left\<close> a second time.\<close>

definition BuyTransaction_sell ::
    "BuyTransaction \<Rightarrow> SellTransaction \<Rightarrow> (error + unit) \<times> BuyTransaction" where
  "BuyTransaction_sell self tr =
     (let self1 = self\<lparr>sells := sells self @ [tr]\<rparr>;
          (d, self2) = quantity_left self1
      in if d \<ge> 0 then (Inr (), self2)
         else (let (d', self3) = quantity_left self2
               in (Inl (AssertionError (Some d')), self3)))"

text \<open>\<^verbatim>\<open>SellTransaction\<close> (lines 80-86).\<close>

definition SellTransaction_init :: "StockInfo \<Rightarrow> string \<Rightarrow> real \<Rightarrow> int \<Rightarrow> error + SellTransaction" where
  "SellTransaction_init stk tim pr qty = Transaction_init stk tim pr qty"

definition SellTransaction_service_percent :: "SellTransaction \<Rightarrow> pyfloat" where
  "SellTransaction_service_percent self =
     add_py (add_py (float_py (commission (stock self))) (float_py (transfer_fee (stock self))))
       (float_py (stamp_duty (stock self)))"

section \<open>Stocks\<close>

text \<open>\<^verbatim>\<open>Stock\<close> (lines 88-110). The dictionary \<^verbatim>\<open>_tr_recorder\<close> keeps insertion order and
  an assignment to a present key replaces the value in place: an association list with
  \<^const>\<open>AList.update\<close>. The keyword defaults of \<^verbatim>\<open>__init__\<close> are
  \<^verbatim>\<open>commission=0.0005, stamp_duty=0.0005, transfer_fee=0.00001\<close>.\<close>

definition Stock_init :: "string \<Rightarrow> int \<Rightarrow> real \<Rightarrow> real \<Rightarrow> real \<Rightarrow> Stock" where
  "Stock_init nm i cm sd tf =
     \<lparr>name = nm, id_stock = i, commission = cm, stamp_duty = sd, transfer_fee = tf,
      tr_recorder = []\<rparr>"

definition stock_ref :: "Stock \<Rightarrow> StockInfo" where
  "stock_ref self =
     \<lparr>name = name self, id_stock = id_stock self, commission = commission self,
      stamp_duty = stamp_duty self, transfer_fee = transfer_fee self\<rparr>"

definition Stock_buy :: "Stock \<Rightarrow> string \<Rightarrow> real \<Rightarrow> int \<Rightarrow> (error + unit) \<times> Stock" where
  "Stock_buy self tim pr qty =
     (case BuyTransaction_init (stock_ref self) tim pr qty of
        Inl e \<Rightarrow> (Inl e, self)
      | Inr tr \<Rightarrow>
          (Inr (), self\<lparr>tr_recorder := AList.update (id_tr tr) tr (tr_recorder self)\<rparr>))"

text \<open>\<^verbatim>\<open>Stock.sell\<close> (lines 107-110): the sell is constructed first, then the buy is looked
  up, then the buy's \<^verbatim>\<open>sell\<close> runs on the object stored in the dictionary.\<close>

definition Stock_sell ::
    "Stock \<Rightarrow> string \<Rightarrow> string \<Rightarrow> real \<Rightarrow> int \<Rightarrow> (error + unit) \<times> Stock" where
  "Stock_sell self buy_timing tim pr qty =
     (case SellTransaction_init (stock_ref self) tim pr qty of
        Inl e \<Rightarrow> (Inl e, self)
      | Inr tr \<Rightarrow>
          (case timing2id buy_timing of
             Inl e \<Rightarrow> (Inl e, self)
           | Inr k \<Rightarrow>
               (case map_of (tr_recorder self) k of
                  None \<Rightarrow> (Inl (KeyError k), self)
                | Some trans_buy \<Rightarrow>
                    (case BuyTransaction_sell trans_buy tr of
                       (r, trans_buy') \<Rightarrow>
                         (r, self\<lparr>tr_recorder :=
                                   AList.update k trans_buy' (tr_recorder self)\<rparr>)))))"

text \<open>A sequence of calls \<^verbatim>\<open>b.sell(tr)\<close> on one buy, in order (the loop of
  \<^verbatim>\<open>add_database\<close>, lines 136-142, reaches them through \<^verbatim>\<open>Stock.sell\<close>); an
  exception ends the sequence.\<close>

fun sell_all :: "BuyTransaction \<Rightarrow> SellTransaction list \<Rightarrow> (error + unit) \<times> BuyTransaction" where
  "sell_all b [] = (Inr (), b)"
| "sell_all b (tr # trs) =
     (case BuyTransaction_sell b tr of
        (Inl e, b') \<Rightarrow> (Inl e, b')
      | (Inr u, b') \<Rightarrow> sell_all b' trs)"

text \<open>The stock that the program's own run creates (line 153).\<close>

definition main_stock :: Stock where
  "main_stock = Stock_init ''ABC'' 30063 0.0003 0.0005 0.00002"

section \<open>Properties of the built-ins\<close>

lemma split_py_not_Nil: "split_py sep s \<noteq> []"
  by (induction s) auto

lemma split_py_no_sep: "w \<in> set (split_py sep s) \<Longrightarrow> sep \<notin> set w"
proof (induction s arbitrary: w)
  case Nil
  then show ?case by simp
next
  case (Cons c cs)
  obtain h t where ht: "split_py sep cs = h # t"
    using split_py_not_Nil [of sep cs] by (cases "split_py sep cs") auto
  show ?case
  proof (cases "c = sep")
    case True
    with Cons show ?thesis by auto
  next
    case False
    with Cons.prems ht have "w = c # h \<or> w \<in> set t" by auto
    with Cons.IH ht False show ?thesis by auto
  qed
qed

lemma length_split_py: "length (split_py sep s) = Suc (count_list s sep)"
  by (induction s) (auto simp: split_py_not_Nil)

lemma int_py_nonneg:
  assumes "CHR ''-'' \<notin> set s" "int_py s = Some n"
  shows "0 \<le> n"
proof -
  have "set (strip_py s) \<subseteq> set s"
    unfolding strip_py_def by (auto dest!: set_dropWhileD)
  with assms(1) have no: "CHR ''-'' \<notin> set (strip_py s)" by auto
  show ?thesis
  proof (cases "strip_py s")
    case Nil
    with assms(2) show ?thesis by (simp add: int_py_def)
  next
    case (Cons c cs)
    with no have "c \<noteq> CHR ''-''" by auto
    with assms(2) Cons show ?thesis
      by (auto simp: int_py_def split: if_splits)
  qed
qed


lemma timing2id_fields:
  assumes "split_py CHR ''-'' t = [a, b, c]"
    and "int_py a = Some Y" "int_py b = Some MD" "int_py c = Some S"
  shows "timing2id t = Inr (Y * 10 ^ 6 + MD * 10 ^ 2 + S)"
  using assms by (simp add: timing2id_def)

lemma fields_nonneg:
  assumes "split_py CHR ''-'' t = [a, b, c]"
    and "int_py a = Some Y" "int_py b = Some MD" "int_py c = Some S"
  shows "0 \<le> Y \<and> 0 \<le> MD \<and> 0 \<le> S"
proof -
  have "\<And>w. w \<in> set [a, b, c] \<Longrightarrow> CHR ''-'' \<notin> set w"
    using split_py_no_sep [of _ "CHR ''-''" t] assms(1) by simp
  then have "CHR ''-'' \<notin> set a" "CHR ''-'' \<notin> set b" "CHR ''-'' \<notin> set c"
    by simp_all
  with assms(2-4) show ?thesis
    by (simp add: int_py_nonneg)
qed

lemma enc_less_iff:
  fixes Y1 :: int
  assumes "0 \<le> MD1" "0 \<le> S1" "0 \<le> MD2" "0 \<le> S2"
    and "MD1 < 10 ^ 4" "S1 < 10 ^ 2" "MD2 < 10 ^ 4" "S2 < 10 ^ 2"
  shows "Y1 * 10 ^ 6 + MD1 * 10 ^ 2 + S1 < Y2 * 10 ^ 6 + MD2 * 10 ^ 2 + S2
           \<longleftrightarrow> Y1 < Y2 \<or> (Y1 = Y2 \<and> (MD1 < MD2 \<or> (MD1 = MD2 \<and> S1 < S2)))"
proof -
  have b: "MD1 < 10000" "S1 < 100" "MD2 < 10000" "S2 < 100"
    using assms(5-8) by simp_all
  consider "Y1 < Y2" | "Y2 < Y1" | "Y1 = Y2" "MD1 < MD2" | "Y1 = Y2" "MD2 < MD1"
    | "Y1 = Y2" "MD1 = MD2"
    by linarith
  then show ?thesis
  proof cases
    case 1
    then show ?thesis using assms(1-4) b by simp
  next
    case 2
    then show ?thesis using assms(1-4) b by simp
  next
    case 3
    then show ?thesis using assms(1-4) b by simp
  next
    case 4
    then show ?thesis using assms(1-4) b by simp
  next
    case 5
    then show ?thesis by simp
  qed
qed

lemma enc_eq_iff:
  fixes Y1 :: int
  assumes "0 \<le> MD1" "0 \<le> S1" "0 \<le> MD2" "0 \<le> S2"
    and "MD1 < 10 ^ 4" "S1 < 10 ^ 2" "MD2 < 10 ^ 4" "S2 < 10 ^ 2"
  shows "Y1 * 10 ^ 6 + MD1 * 10 ^ 2 + S1 = Y2 * 10 ^ 6 + MD2 * 10 ^ 2 + S2
           \<longleftrightarrow> Y1 = Y2 \<and> MD1 = MD2 \<and> S1 = S2"
proof -
  have "\<not> Y1 * 10 ^ 6 + MD1 * 10 ^ 2 + S1 < Y2 * 10 ^ 6 + MD2 * 10 ^ 2 + S2
      \<and> \<not> Y2 * 10 ^ 6 + MD2 * 10 ^ 2 + S2 < Y1 * 10 ^ 6 + MD1 * 10 ^ 2 + S1
     \<longleftrightarrow> Y1 = Y2 \<and> MD1 = MD2 \<and> S1 = S2"
    unfolding enc_less_iff [OF assms] enc_less_iff [OF assms(3,4,1,2,7,8,5,6)]
    by auto
  then show ?thesis by auto
qed

lemma timing2id_example:
  "timing2id ''2024-0205-10'' = Inr 2024020510"
  "timing2id ''2024-205-10'' = Inr 2024020510"
  "timing2id ''2024-0312-14'' = Inr 2024031214"
  by (simp_all add: timing2id_def int_py_def strip_py_def isspace_py_def digit_py_def)

section \<open>Properties of float rounding\<close>














text \<open>Evaluation of the float operations on numerals.\<close>

lemmas float_eval = float_py_def expo_def expo_down.simps expo_up.simps pow2_def rhe_def Let_def

lemma float_literals:
  "float_py 0.0003 = Num (5534023222112865 / 2 ^ 64)"
  "float_py 0.00002 = Num (5902958103587057 / 2 ^ 68)"
  "float_py 0.0005 = Num (1152921504606847 / 2 ^ 61)"
  "float_py 0.00032 = Num (5902958103587057 / 2 ^ 64)"
  "float_py 0.00082 = Num (1890791267555229 / 2 ^ 61)"
  "float_py 25.6 = Num (3602879701896397 / 2 ^ 47)"
  "float_py 36.36 = Num (2558607538299863 / 2 ^ 46)"
  "float_py 200 = Num 200"
  "float_py 5120.0 = Num 5120"
  "float_py 7272.0 = Num 7272"
  by (simp_all add: float_eval)

lemma float_of_int_200: "float_of_int_py 200 = Inr (Num 200)"
  by (simp add: float_of_int_py_def float_literals)





lemma main_stock_rates:
  "commission (stock_ref main_stock) = 0.0003"
  "transfer_fee (stock_ref main_stock) = 0.00002"
  "stamp_duty (stock_ref main_stock) = 0.0005"
  by (simp_all add: stock_ref_def main_stock_def Stock_init_def)

lemma main_buy_percent:
  "add_py (float_py 0.0003) (float_py 0.00002) = Num (368934881474191 / 2 ^ 60)"
  by (simp only: float_literals add_py.simps) (simp add: float_eval)

lemma main_sell_percent:
  "add_py (add_py (float_py 0.0003) (float_py 0.00002)) (float_py 0.0005) =
     Num (1890791267555229 / 2 ^ 61)"
  by (simp only: main_buy_percent float_literals add_py.simps) (simp add: float_eval)

lemma main_buy_fee: "mul_py (float_py 25.6) (Num 200) = Num 5120"
  by (simp only: float_literals mul_py.simps) (simp add: float_eval)

lemma main_sell_fee: "mul_py (float_py 36.36) (Num 200) = Num 7272"
  by (simp only: float_literals mul_py.simps) (simp add: float_eval)

lemma main_buy_final:
  "mul_py (Num 5120) (sub_py (Num 1) (Num (368934881474191 / 2 ^ 60))) =
     Num (1406924523590543 / 2 ^ 38)"
  "mul_py (Num 5120) (sub_py (Num 1) (Num (5902958103587057 / 2 ^ 64))) =
     Num (1406924523590543 / 2 ^ 38)"
  by (simp_all add: sub_py_def) (simp_all add: float_eval)




section \<open>Timing identifiers\<close>

text \<open>
  Claim C3. A timing string is well formed when \<^verbatim>\<open>split('-')\<close> yields three fields
  and \<^verbatim>\<open>int\<close> accepts each; \<open>Y\<close>, \<open>MD\<close>, \<open>S\<close> are the three integers read. Then
  \<^verbatim>\<open>timing2id\<close> returns \<open>Y * 10^6 + MD * 10^2 + S\<close>. For two such strings with
  \<open>MD < 10^4\<close> and \<open>S < 10^2\<close>, the identifiers are equal exactly when the triples
  \<open>(Y, MD, S)\<close> are equal, and ordered exactly as the triples are ordered
  lexicographically. (No field is negative: a field holds no dash. Injectivity is in the
  triple read from the string, not in the string itself, see C9.)
\<close>

theorem timing2id_value_injective_monotone:
  assumes "split_py CHR ''-'' t1 = [a1, b1, c1]"
    and "int_py a1 = Some Y1" "int_py b1 = Some MD1" "int_py c1 = Some S1"
    and "split_py CHR ''-'' t2 = [a2, b2, c2]"
    and "int_py a2 = Some Y2" "int_py b2 = Some MD2" "int_py c2 = Some S2"
  shows "timing2id t1 = Inr (Y1 * 10 ^ 6 + MD1 * 10 ^ 2 + S1) \<and>
         timing2id t2 = Inr (Y2 * 10 ^ 6 + MD2 * 10 ^ 2 + S2) \<and>
         (MD1 < 10 ^ 4 \<and> S1 < 10 ^ 2 \<and> MD2 < 10 ^ 4 \<and> S2 < 10 ^ 2 \<longrightarrow>
            (timing2id t1 = timing2id t2 \<longleftrightarrow> Y1 = Y2 \<and> MD1 = MD2 \<and> S1 = S2) \<and>
            (\<forall>i1 i2. timing2id t1 = Inr i1 \<and> timing2id t2 = Inr i2 \<longrightarrow>
               (i1 < i2 \<longleftrightarrow> Y1 < Y2 \<or> (Y1 = Y2 \<and> (MD1 < MD2 \<or> (MD1 = MD2 \<and> S1 < S2))))))"
proof -
  have v1: "timing2id t1 = Inr (Y1 * 10 ^ 6 + MD1 * 10 ^ 2 + S1)"
    using assms(1-4) by (rule timing2id_fields)
  have v2: "timing2id t2 = Inr (Y2 * 10 ^ 6 + MD2 * 10 ^ 2 + S2)"
    using assms(5-8) by (rule timing2id_fields)
  have n1: "0 \<le> MD1" "0 \<le> S1"
    using fields_nonneg [OF assms(1-4)] by simp_all
  have n2: "0 \<le> MD2" "0 \<le> S2"
    using fields_nonneg [OF assms(5-8)] by simp_all
  have "(timing2id t1 = timing2id t2 \<longleftrightarrow> Y1 = Y2 \<and> MD1 = MD2 \<and> S1 = S2) \<and>
        (\<forall>i1 i2. timing2id t1 = Inr i1 \<and> timing2id t2 = Inr i2 \<longrightarrow>
           (i1 < i2 \<longleftrightarrow> Y1 < Y2 \<or> (Y1 = Y2 \<and> (MD1 < MD2 \<or> (MD1 = MD2 \<and> S1 < S2)))))"
    if b: "MD1 < 10 ^ 4" "S1 < 10 ^ 2" "MD2 < 10 ^ 4" "S2 < 10 ^ 2"
    unfolding v1 v2 sum.inject
    using enc_eq_iff [OF n1 n2 b, of Y1 Y2] enc_less_iff [OF n1 n2 b, of Y1 Y2]
    by blast
  with v1 v2 show ?thesis by blast
qed

theorem timing2id_value_injective_monotone_witness:
  "timing2id ''2024-0205-10'' = Inr 2024020510 \<and>
   timing2id ''2024-0312-14'' = Inr 2024031214 \<and>
   timing2id ''2024-0205-10'' \<noteq> timing2id ''2024-0312-14'' \<and>
   (case (timing2id ''2024-0205-10'', timing2id ''2024-0312-14'') of
      (Inr i1, Inr i2) \<Rightarrow> i1 < i2
    | _ \<Rightarrow> False)"
proof -
  have s1: "split_py CHR ''-'' ''2024-0205-10'' = [''2024'', ''0205'', ''10'']" by simp
  have s2: "split_py CHR ''-'' ''2024-0312-14'' = [''2024'', ''0312'', ''14'']" by simp
  have p: "int_py ''2024'' = Some 2024" "int_py ''0205'' = Some 205" "int_py ''10'' = Some 10"
    "int_py ''0312'' = Some 312" "int_py ''14'' = Some 14"
    by (simp_all add: int_py_def strip_py_def isspace_py_def digit_py_def)
  show ?thesis
    using timing2id_value_injective_monotone [OF s1 p(1,2,3) s2 p(1,4,5)]
    by simp
qed

text \<open>
  Claim C8. Constructing a transaction raises when the timing does not split into exactly
  three fields (the assertion of line 19) or when \<^verbatim>\<open>int\<close> rejects a field (its
  \<^verbatim>\<open>ValueError\<close>); these two exceptions are what the specification calls a format
  error. Otherwise construction succeeds and the object stores the identifier derived by
  \<^verbatim>\<open>timing2id\<close>, with the arguments unchanged.
\<close>

theorem Transaction_init_format:
  "(length (split_py CHR ''-'' tim) \<noteq> 3 \<longrightarrow>
      Transaction_init stk tim pr qty = Inl (AssertionError None)) \<and>
   (length (split_py CHR ''-'' tim) = 3 \<and> (\<exists>w \<in> set (split_py CHR ''-'' tim). int_py w = None) \<longrightarrow>
      Transaction_init stk tim pr qty = Inl ValueError) \<and>
   (length (split_py CHR ''-'' tim) = 3 \<and> (\<forall>w \<in> set (split_py CHR ''-'' tim). int_py w \<noteq> None) \<longrightarrow>
      (\<exists>i. timing2id tim = Inr i \<and>
           Transaction_init stk tim pr qty =
             Inr \<lparr>stock = stk, timing = tim, id_tr = i, price = pr, quantity = qty\<rparr>))"
proof -
  have those_None: "those (map int_py ws) = None \<longleftrightarrow> (\<exists>w \<in> set ws. int_py w = None)" for ws
    by (induction ws) (auto split: option.splits)
  show ?thesis
    unfolding Transaction_init_def timing2id_def Let_def
    using those_None [of "split_py CHR ''-'' tim"]
    by (auto split: option.splits)
qed

theorem Transaction_init_format_witness:
  "Transaction_init \<lparr>name = ''ABC'', id_stock = 30063, commission = 0.0003,
       stamp_duty = 0.0005, transfer_fee = 0.00002\<rparr> ''2024-0205'' 25.6 200 =
     Inl (AssertionError None) \<and>
   Transaction_init \<lparr>name = ''ABC'', id_stock = 30063, commission = 0.0003,
       stamp_duty = 0.0005, transfer_fee = 0.00002\<rparr> ''2024-0205-1a'' 25.6 200 =
     Inl ValueError \<and>
   Transaction_init \<lparr>name = ''ABC'', id_stock = 30063, commission = 0.0003,
       stamp_duty = 0.0005, transfer_fee = 0.00002\<rparr> ''2024-0205-10'' 25.6 200 =
     Inr \<lparr>stock = \<lparr>name = ''ABC'', id_stock = 30063, commission = 0.0003,
                    stamp_duty = 0.0005, transfer_fee = 0.00002\<rparr>,
          timing = ''2024-0205-10'', id_tr = 2024020510, price = 25.6, quantity = 200\<rparr>"
proof -
  let ?stk = "\<lparr>name = ''ABC'', id_stock = 30063, commission = 0.0003,
       stamp_duty = 0.0005, transfer_fee = 0.00002\<rparr>"
  have p: "int_py ''2024'' = Some 2024" "int_py ''0205'' = Some 205" "int_py ''10'' = Some 10"
    "int_py ''1a'' = None"
    by (simp_all add: int_py_def strip_py_def isspace_py_def digit_py_def)
  have "Transaction_init ?stk ''2024-0205'' 25.6 200 = Inl (AssertionError None)"
    using Transaction_init_format [of "''2024-0205''" ?stk "25.6" 200] by simp
  moreover have "Transaction_init ?stk ''2024-0205-1a'' 25.6 200 = Inl ValueError"
    using Transaction_init_format [of "''2024-0205-1a''" ?stk "25.6" 200] p by simp
  moreover have "Transaction_init ?stk ''2024-0205-10'' 25.6 200 =
     Inr \<lparr>stock = ?stk, timing = ''2024-0205-10'', id_tr = 2024020510, price = 25.6,
          quantity = 200\<rparr>"
    using Transaction_init_format [of "''2024-0205-10''" ?stk "25.6" 200] p
    by (simp add: timing2id_example)
  ultimately show ?thesis by simp
qed

text \<open>
  Claim C9. \<^verbatim>\<open>timing2id\<close> is not injective on well-formed timing strings:
  \<^verbatim>\<open>"2024-0205-10"\<close> and \<^verbatim>\<open>"2024-205-10"\<close> are different strings with the same
  identifier. Hence \<^verbatim>\<open>Stock.sell\<close> called with either as \<^verbatim>\<open>buy_timing\<close> does the same
  on every stock; in particular a buy recorded under the first and a sell that names the
  second meet in the one entry \<open>2024020510\<close>.
\<close>

theorem timing2id_not_injective:
  "''2024-0205-10'' \<noteq> ''2024-205-10'' \<and>
   timing2id ''2024-0205-10'' = timing2id ''2024-205-10'' \<and>
   Stock_sell st ''2024-205-10'' tim pr qty = Stock_sell st ''2024-0205-10'' tim pr qty \<and>
   Stock_sell (snd (Stock_buy (Stock_init ''ABC'' 30063 0.0003 0.0005 0.00002)
                      ''2024-0205-10'' 25.6 200))
       ''2024-205-10'' ''2024-0312-14'' 36.36 200 =
     (Inr (),
      \<lparr>name = ''ABC'', id_stock = 30063, commission = 0.0003, stamp_duty = 0.0005,
       transfer_fee = 0.00002,
       tr_recorder =
         [(2024020510,
           \<lparr>stock = \<lparr>name = ''ABC'', id_stock = 30063, commission = 0.0003,
                     stamp_duty = 0.0005, transfer_fee = 0.00002\<rparr>,
            timing = ''2024-0205-10'', id_tr = 2024020510, price = 25.6, quantity = 200,
            empty_flag = True,
            sells = [\<lparr>stock = \<lparr>name = ''ABC'', id_stock = 30063, commission = 0.0003,
                                stamp_duty = 0.0005, transfer_fee = 0.00002\<rparr>,
                      timing = ''2024-0312-14'', id_tr = 2024031214, price = 36.36,
                      quantity = 200\<rparr>]\<rparr>)]\<rparr>)"
proof -
  have a: "timing2id ''2024-0205-10'' = timing2id ''2024-205-10''"
    by (simp only: timing2id_example)
  have b: "Stock_sell st ''2024-205-10'' tim pr qty = Stock_sell st ''2024-0205-10'' tim pr qty"
    unfolding Stock_sell_def a ..
  have c: "Stock_buy (Stock_init ''ABC'' 30063 0.0003 0.0005 0.00002) ''2024-0205-10'' 25.6 200 =
      (Inr (),
       \<lparr>name = ''ABC'', id_stock = 30063, commission = 0.0003, stamp_duty = 0.0005,
        transfer_fee = 0.00002,
        tr_recorder =
          [(2024020510,
            \<lparr>stock = \<lparr>name = ''ABC'', id_stock = 30063, commission = 0.0003,
                      stamp_duty = 0.0005, transfer_fee = 0.00002\<rparr>,
             timing = ''2024-0205-10'', id_tr = 2024020510, price = 25.6, quantity = 200,
             empty_flag = False, sells = []\<rparr>)]\<rparr>)"
    unfolding Stock_buy_def BuyTransaction_init_def Transaction_init_def timing2id_example
    by (simp add: Stock_init_def stock_ref_def)
  show ?thesis
    unfolding c snd_conv
    unfolding Stock_sell_def SellTransaction_init_def Transaction_init_def timing2id_example
    by (simp add: stock_ref_def BuyTransaction_sell_def quantity_left_def)
qed

section \<open>Fees\<close>





section \<open>A buy and its sells\<close>

lemma fold_quantity:
  "fold (\<lambda>sell delta. delta - quantity sell) trs q = q - sum_list (map quantity trs)"
  by (induction trs arbitrary: q) simp_all

lemma quantity_left_eq:
  "quantity_left b =
     (quantity b - sum_list (map quantity (sells b)),
      b\<lparr>empty_flag := (quantity b - sum_list (map quantity (sells b)) = 0)\<rparr>)"
  by (simp add: quantity_left_def fold_quantity)

lemma BuyTransaction_sell_eq:
  "BuyTransaction_sell b tr =
     (if 0 \<le> fst (quantity_left b) - quantity tr then Inr ()
      else Inl (AssertionError (Some (fst (quantity_left b) - quantity tr))),
      b\<lparr>sells := sells b @ [tr],
        empty_flag := (fst (quantity_left b) - quantity tr = 0)\<rparr>)"
proof -
  have e: "(a - s = q) = (a = s + q)" for a s q :: int
    by auto
  show ?thesis
    by (simp add: BuyTransaction_sell_def quantity_left_eq Let_def e)
qed

lemma sell_all_Inr:
  assumes "sell_all b trs = (Inr u, b')"
  shows "sells b' = sells b @ trs \<and> quantity b' = quantity b \<and>
         (trs \<noteq> [] \<or> 0 \<le> fst (quantity_left b) \<longrightarrow> 0 \<le> fst (quantity_left b'))"
  using assms
proof (induction trs arbitrary: b)
  case Nil
  then show ?case by simp
next
  case (Cons tr trs)
  let ?b1 = "snd (BuyTransaction_sell b tr)"
  from Cons.prems have ok: "0 \<le> fst (quantity_left b) - quantity tr"
    and rest: "sell_all ?b1 trs = (Inr u, b')"
    by (auto simp: BuyTransaction_sell_eq split: if_splits)
  have b1: "sells ?b1 = sells b @ [tr]" "quantity ?b1 = quantity b"
    "fst (quantity_left ?b1) = fst (quantity_left b) - quantity tr"
    by (simp_all add: BuyTransaction_sell_eq quantity_left_eq)
  from Cons.IH [OF rest] b1 ok show ?case by simp
qed

text \<open>
  Claim C1, amended. After any sequence of successful \<^verbatim>\<open>sell\<close> calls on a buy, its list is
  the old list followed by the sells of the calls, and \<open>quantity_left\<close> is the buy's
  quantity minus the sum of the quantities in the list. This value is not negative when at
  least one call was made (the last call's assertion says so), or when it was not negative
  before the calls. As the claim is written it also covers no call at all on a buy
  constructed with a negative quantity, which the constructor accepts: there it fails.
\<close>

theorem sell_all_quantity_left:
  assumes "sell_all b trs = (Inr (), b')"
  shows "sells b' = sells b @ trs \<and>
         fst (quantity_left b') = quantity b - sum_list (map quantity (sells b @ trs)) \<and>
         (trs \<noteq> [] \<or> 0 \<le> fst (quantity_left b) \<longrightarrow> 0 \<le> fst (quantity_left b'))"
proof -
  from sell_all_Inr [OF assms]
  have s: "sells b' = sells b @ trs" and q: "quantity b' = quantity b"
    and n: "trs \<noteq> [] \<or> 0 \<le> fst (quantity_left b) \<longrightarrow> 0 \<le> fst (quantity_left b')"
    by simp_all
  have "fst (quantity_left b') = quantity b - sum_list (map quantity (sells b @ trs))"
    by (simp add: quantity_left_eq s q)
  with s n show ?thesis by blast
qed


theorem sell_all_quantity_left_witness:
  "sell_all
     \<lparr>stock = stock_ref main_stock, timing = ''2024-0205-10'', id_tr = 2024020510,
      price = 25.6, quantity = 200, empty_flag = False, sells = []\<rparr>
     [\<lparr>stock = stock_ref main_stock, timing = ''2024-0312-14'', id_tr = 2024031214,
       price = 36.36, quantity = 120\<rparr>,
      \<lparr>stock = stock_ref main_stock, timing = ''2024-0312-15'', id_tr = 2024031215,
       price = 36.5, quantity = 80\<rparr>] =
   (Inr (),
    \<lparr>stock = stock_ref main_stock, timing = ''2024-0205-10'', id_tr = 2024020510,
      price = 25.6, quantity = 200, empty_flag = True,
      sells =
        [\<lparr>stock = stock_ref main_stock, timing = ''2024-0312-14'', id_tr = 2024031214,
          price = 36.36, quantity = 120\<rparr>,
         \<lparr>stock = stock_ref main_stock, timing = ''2024-0312-15'', id_tr = 2024031215,
          price = 36.5, quantity = 80\<rparr>]\<rparr>) \<and>
   fst (quantity_left
     \<lparr>stock = stock_ref main_stock, timing = ''2024-0205-10'', id_tr = 2024020510,
      price = 25.6, quantity = 200, empty_flag = True,
      sells =
        [\<lparr>stock = stock_ref main_stock, timing = ''2024-0312-14'', id_tr = 2024031214,
          price = 36.36, quantity = 120\<rparr>,
         \<lparr>stock = stock_ref main_stock, timing = ''2024-0312-15'', id_tr = 2024031215,
          price = 36.5, quantity = 80\<rparr>]\<rparr>) = 200 - (120 + 80) \<and>
   0 \<le> fst (quantity_left
     \<lparr>stock = stock_ref main_stock, timing = ''2024-0205-10'', id_tr = 2024020510,
      price = 25.6, quantity = 200, empty_flag = True,
      sells =
        [\<lparr>stock = stock_ref main_stock, timing = ''2024-0312-14'', id_tr = 2024031214,
          price = 36.36, quantity = 120\<rparr>,
         \<lparr>stock = stock_ref main_stock, timing = ''2024-0312-15'', id_tr = 2024031215,
          price = 36.5, quantity = 80\<rparr>]\<rparr>)"
  (is "sell_all ?b ?trs = (Inr (), ?b') \<and> _ \<and> _")
proof -
  have run: "sell_all ?b ?trs = (Inr (), ?b')"
    by (simp add: BuyTransaction_sell_eq quantity_left_eq)
  from sell_all_quantity_left [OF run] run show ?thesis
    by simp
qed

theorem sell_all_negative_counterexample:
  "BuyTransaction_init (stock_ref main_stock) ''2024-0205-10'' 25.6 (- 5) =
     Inr \<lparr>stock = stock_ref main_stock, timing = ''2024-0205-10'', id_tr = 2024020510,
          price = 25.6, quantity = - 5, empty_flag = False, sells = []\<rparr> \<and>
   sell_all
     \<lparr>stock = stock_ref main_stock, timing = ''2024-0205-10'', id_tr = 2024020510,
      price = 25.6, quantity = - 5, empty_flag = False, sells = []\<rparr> [] =
     (Inr (),
      \<lparr>stock = stock_ref main_stock, timing = ''2024-0205-10'', id_tr = 2024020510,
       price = 25.6, quantity = - 5, empty_flag = False, sells = []\<rparr>) \<and>
   fst (quantity_left
     \<lparr>stock = stock_ref main_stock, timing = ''2024-0205-10'', id_tr = 2024020510,
      price = 25.6, quantity = - 5, empty_flag = False, sells = []\<rparr>) = - 5 \<and>
   fst (quantity_left
     \<lparr>stock = stock_ref main_stock, timing = ''2024-0205-10'', id_tr = 2024020510,
      price = 25.6, quantity = - 5, empty_flag = False, sells = []\<rparr>) < 0"
  unfolding BuyTransaction_init_def Transaction_init_def timing2id_example
  by (simp add: quantity_left_eq)

text \<open>
  Claim C2, amended. When the sell's quantity exceeds \<open>quantity_left\<close>, \<^verbatim>\<open>sell\<close> raises
  the \<^verbatim>\<open>AssertionError\<close> of line 78 (the specification's quantity-exceeded error) with
  the negative remainder as its argument. The sell has been appended by then: after the
  error the list is the old list followed by the rejected sell, the \<^verbatim>\<open>empty\<close> flag is
  false and \<open>quantity_left\<close> is negative. The list is not left unchanged, as the claim
  has it.
\<close>

theorem BuyTransaction_sell_exceeded:
  assumes "fst (quantity_left b) < quantity tr"
  shows "BuyTransaction_sell b tr =
           (Inl (AssertionError (Some (fst (quantity_left b) - quantity tr))),
            b\<lparr>sells := sells b @ [tr], empty_flag := False\<rparr>) \<and>
         fst (quantity_left (snd (BuyTransaction_sell b tr))) < 0"
  using assms by (simp add: BuyTransaction_sell_eq quantity_left_eq)

theorem BuyTransaction_sell_exceeded_witness:
  "BuyTransaction_sell
     \<lparr>stock = stock_ref main_stock, timing = ''2024-0205-10'', id_tr = 2024020510,
      price = 25.6, quantity = 200, empty_flag = False, sells = []\<rparr>
     \<lparr>stock = stock_ref main_stock, timing = ''2024-0312-14'', id_tr = 2024031214,
      price = 36.36, quantity = 201\<rparr> =
   (Inl (AssertionError (Some (- 1))),
    \<lparr>stock = stock_ref main_stock, timing = ''2024-0205-10'', id_tr = 2024020510,
      price = 25.6, quantity = 200, empty_flag = False,
      sells = [\<lparr>stock = stock_ref main_stock, timing = ''2024-0312-14'',
                id_tr = 2024031214, price = 36.36, quantity = 201\<rparr>]\<rparr>)"
  (is "BuyTransaction_sell ?b ?tr = _")
proof -
  have "fst (quantity_left ?b) < quantity ?tr"
    by (simp add: quantity_left_eq)
  from BuyTransaction_sell_exceeded [OF this] show ?thesis
    by (simp add: quantity_left_eq)
qed

theorem BuyTransaction_sell_atomic_counterexample:
  "fst (quantity_left
     \<lparr>stock = stock_ref main_stock, timing = ''2024-0205-10'', id_tr = 2024020510,
      price = 25.6, quantity = 200, empty_flag = False, sells = []\<rparr>) <
   quantity
     \<lparr>stock = stock_ref main_stock, timing = ''2024-0312-14'', id_tr = 2024031214,
      price = 36.36, quantity = 201\<rparr> \<and>
   sells (snd (BuyTransaction_sell
     \<lparr>stock = stock_ref main_stock, timing = ''2024-0205-10'', id_tr = 2024020510,
      price = 25.6, quantity = 200, empty_flag = False, sells = []\<rparr>
     \<lparr>stock = stock_ref main_stock, timing = ''2024-0312-14'', id_tr = 2024031214,
      price = 36.36, quantity = 201\<rparr>)) \<noteq>
   sells
     \<lparr>stock = stock_ref main_stock, timing = ''2024-0205-10'', id_tr = 2024020510,
      price = 25.6, quantity = 200, empty_flag = False, sells = []\<rparr> \<and>
   \<lparr>stock = stock_ref main_stock, timing = ''2024-0312-14'', id_tr = 2024031214,
      price = 36.36, quantity = 201\<rparr> \<in>
   set (sells (snd (BuyTransaction_sell
     \<lparr>stock = stock_ref main_stock, timing = ''2024-0205-10'', id_tr = 2024020510,
      price = 25.6, quantity = 200, empty_flag = False, sells = []\<rparr>
     \<lparr>stock = stock_ref main_stock, timing = ''2024-0312-14'', id_tr = 2024031214,
      price = 36.36, quantity = 201\<rparr>)))"
  by (simp add: BuyTransaction_sell_eq quantity_left_eq)

text \<open>
  Claim C10, amended. \<^verbatim>\<open>sell\<close> never looks at the sign of the sell's quantity: a sell
  is accepted exactly when its quantity does not exceed the buy's \<open>quantity_left\<close>, so a
  sell of zero or negative quantity is accepted on every buy whose \<open>quantity_left\<close> is not
  negative (on a buy constructed with quantity -5 a sell of quantity 0 is rejected). The
  sell is appended and \<open>quantity_left\<close> afterwards is the old value minus the sell's
  quantity: a negative quantity makes it strictly larger than before. It exceeds the buy's
  own quantity exactly when the quantities of all sells in the list sum to a negative
  number, in particular on a buy without earlier sells (after a sell of 100 on a buy of
  200, a sell of -50 leaves 150).
\<close>

theorem BuyTransaction_sell_nonpositive:
  assumes "quantity tr \<le> 0"
  shows "(fst (BuyTransaction_sell b tr) = Inr () \<longleftrightarrow> quantity tr \<le> fst (quantity_left b)) \<and>
         (0 \<le> fst (quantity_left b) \<longrightarrow> fst (BuyTransaction_sell b tr) = Inr ()) \<and>
         sells (snd (BuyTransaction_sell b tr)) = sells b @ [tr] \<and>
         fst (quantity_left (snd (BuyTransaction_sell b tr))) =
           fst (quantity_left b) - quantity tr \<and>
         (quantity tr < 0 \<longrightarrow>
            fst (quantity_left b) < fst (quantity_left (snd (BuyTransaction_sell b tr)))) \<and>
         (quantity b < fst (quantity_left (snd (BuyTransaction_sell b tr))) \<longleftrightarrow>
            sum_list (map quantity (sells b @ [tr])) < 0) \<and>
         (quantity tr < 0 \<and> sells b = [] \<longrightarrow>
            quantity b < fst (quantity_left (snd (BuyTransaction_sell b tr))))"
proof -
  have a: "fst (BuyTransaction_sell b tr) = Inr () \<longleftrightarrow> quantity tr \<le> fst (quantity_left b)"
    by (simp add: BuyTransaction_sell_eq)
  have l: "fst (quantity_left (snd (BuyTransaction_sell b tr))) =
      fst (quantity_left b) - quantity tr"
    by (simp add: BuyTransaction_sell_eq quantity_left_eq)
  have s: "sells (snd (BuyTransaction_sell b tr)) = sells b @ [tr]"
    by (simp add: BuyTransaction_sell_eq)
  have q: "fst (quantity_left b) = quantity b - sum_list (map quantity (sells b))"
    by (simp add: quantity_left_eq)
  have e: "quantity b < fst (quantity_left (snd (BuyTransaction_sell b tr))) \<longleftrightarrow>
      sum_list (map quantity (sells b @ [tr])) < 0"
    unfolding l q by simp linarith
  have f: "sells b = [] \<Longrightarrow> fst (quantity_left b) = quantity b"
    by (simp add: q)
  have g: "0 \<le> fst (quantity_left b) \<longrightarrow> fst (BuyTransaction_sell b tr) = Inr ()"
    using assms a by auto
  have h: "quantity tr < 0 \<longrightarrow>
      fst (quantity_left b) < fst (quantity_left (snd (BuyTransaction_sell b tr)))"
    unfolding l by auto
  have k: "quantity tr < 0 \<and> sells b = [] \<longrightarrow>
      quantity b < fst (quantity_left (snd (BuyTransaction_sell b tr)))"
    unfolding l using f by auto
  from a g s l h e k show ?thesis
    by (intro conjI)
qed

theorem BuyTransaction_sell_nonpositive_witness:
  "fst (BuyTransaction_sell
     \<lparr>stock = stock_ref main_stock, timing = ''2024-0205-10'', id_tr = 2024020510,
      price = 25.6, quantity = 200, empty_flag = False, sells = []\<rparr>
     \<lparr>stock = stock_ref main_stock, timing = ''2024-0312-14'', id_tr = 2024031214,
      price = 36.36, quantity = - 50\<rparr>) = Inr () \<and>
   fst (quantity_left (snd (BuyTransaction_sell
     \<lparr>stock = stock_ref main_stock, timing = ''2024-0205-10'', id_tr = 2024020510,
      price = 25.6, quantity = 200, empty_flag = False, sells = []\<rparr>
     \<lparr>stock = stock_ref main_stock, timing = ''2024-0312-14'', id_tr = 2024031214,
      price = 36.36, quantity = - 50\<rparr>))) = 250 \<and>
   fst (BuyTransaction_sell
     \<lparr>stock = stock_ref main_stock, timing = ''2024-0205-10'', id_tr = 2024020510,
      price = 25.6, quantity = 200, empty_flag = False, sells = []\<rparr>
     \<lparr>stock = stock_ref main_stock, timing = ''2024-0312-14'', id_tr = 2024031214,
      price = 36.36, quantity = 0\<rparr>) = Inr ()"
  (is "fst (BuyTransaction_sell ?b ?neg) = _ \<and> _ \<and> fst (BuyTransaction_sell _ ?zero) = _")
proof -
  have pre: "0 \<le> fst (quantity_left ?b)" "quantity ?neg \<le> 0" "quantity ?zero \<le> 0"
    by (simp_all add: quantity_left_eq)
  note n = BuyTransaction_sell_nonpositive [OF pre(2), of ?b]
  note z = BuyTransaction_sell_nonpositive [OF pre(3), of ?b]
  have v: "fst (quantity_left ?b) - quantity ?neg = 250"
    by (simp add: quantity_left_eq)
  from n pre(1) have "fst (BuyTransaction_sell ?b ?neg) = Inr ()"
    by blast
  moreover from n have "fst (quantity_left (snd (BuyTransaction_sell ?b ?neg))) =
      fst (quantity_left ?b) - quantity ?neg"
    by blast
  then have "fst (quantity_left (snd (BuyTransaction_sell ?b ?neg))) = 250"
    unfolding v .
  moreover from z pre(1) have "fst (BuyTransaction_sell ?b ?zero) = Inr ()"
    by blast
  ultimately show ?thesis
    by (intro conjI)
qed

theorem BuyTransaction_sell_nonpositive_counterexample:
  "quantity \<lparr>stock = stock_ref main_stock, timing = ''2024-0312-14'', id_tr = 2024031214,
       price = 36.36, quantity = 0\<rparr> \<le> 0 \<and>
   fst (BuyTransaction_sell
     \<lparr>stock = stock_ref main_stock, timing = ''2024-0205-10'', id_tr = 2024020510,
      price = 25.6, quantity = - 5, empty_flag = False, sells = []\<rparr>
     \<lparr>stock = stock_ref main_stock, timing = ''2024-0312-14'', id_tr = 2024031214,
      price = 36.36, quantity = 0\<rparr>) = Inl (AssertionError (Some (- 5))) \<and>
   quantity \<lparr>stock = stock_ref main_stock, timing = ''2024-0312-15'', id_tr = 2024031215,
       price = 36.5, quantity = - 50\<rparr> < 0 \<and>
   BuyTransaction_sell
     \<lparr>stock = stock_ref main_stock, timing = ''2024-0205-10'', id_tr = 2024020510,
      price = 25.6, quantity = 200, empty_flag = False, sells = []\<rparr>
     \<lparr>stock = stock_ref main_stock, timing = ''2024-0312-14'', id_tr = 2024031214,
      price = 36.36, quantity = 100\<rparr> =
     (Inr (),
      \<lparr>stock = stock_ref main_stock, timing = ''2024-0205-10'', id_tr = 2024020510,
       price = 25.6, quantity = 200, empty_flag = False,
       sells = [\<lparr>stock = stock_ref main_stock, timing = ''2024-0312-14'',
                 id_tr = 2024031214, price = 36.36, quantity = 100\<rparr>]\<rparr>) \<and>
   fst (BuyTransaction_sell
     \<lparr>stock = stock_ref main_stock, timing = ''2024-0205-10'', id_tr = 2024020510,
      price = 25.6, quantity = 200, empty_flag = False,
      sells = [\<lparr>stock = stock_ref main_stock, timing = ''2024-0312-14'',
                id_tr = 2024031214, price = 36.36, quantity = 100\<rparr>]\<rparr>
     \<lparr>stock = stock_ref main_stock, timing = ''2024-0312-15'', id_tr = 2024031215,
      price = 36.5, quantity = - 50\<rparr>) = Inr () \<and>
   fst (quantity_left (snd (BuyTransaction_sell
     \<lparr>stock = stock_ref main_stock, timing = ''2024-0205-10'', id_tr = 2024020510,
      price = 25.6, quantity = 200, empty_flag = False,
      sells = [\<lparr>stock = stock_ref main_stock, timing = ''2024-0312-14'',
                id_tr = 2024031214, price = 36.36, quantity = 100\<rparr>]\<rparr>
     \<lparr>stock = stock_ref main_stock, timing = ''2024-0312-15'', id_tr = 2024031215,
      price = 36.5, quantity = - 50\<rparr>))) = 150 \<and>
   \<not> (200 :: int) < 150"
  by (simp add: BuyTransaction_sell_eq quantity_left_eq)

section \<open>The ledger of a stock\<close>

lemma Stock_buy_eq:
  assumes "timing2id tim = Inr i"
  shows "Stock_buy self tim pr qty =
     (Inr (),
      self\<lparr>tr_recorder :=
        AList.update i
          \<lparr>stock = stock_ref self, timing = tim, id_tr = i, price = pr, quantity = qty,
           empty_flag = False, sells = []\<rparr>
          (tr_recorder self)\<rparr>)"
  by (simp add: Stock_buy_def BuyTransaction_init_def Transaction_init_def assms)

text \<open>
  Claim C5, amended. \<^verbatim>\<open>Stock.buy\<close> with a well-formed timing never fails. It stores the
  new buy (no sells, \<^verbatim>\<open>empty\<close> false) under the timing's identifier: the dictionary
  afterwards maps that identifier to the new buy and every other key as before. When the
  identifier was present already, the keys and their order stay as they were and the buy
  stored before, with its sells, is replaced; no duplicate-key error exists in the program.
\<close>

theorem Stock_buy_overwrites:
  assumes "timing2id tim = Inr i"
  shows "fst (Stock_buy self tim pr qty) = Inr () \<and>
         map_of (tr_recorder (snd (Stock_buy self tim pr qty))) =
           (map_of (tr_recorder self))
             (i \<mapsto> \<lparr>stock = stock_ref self, timing = tim, id_tr = i, price = pr,
                    quantity = qty, empty_flag = False, sells = []\<rparr>) \<and>
         map fst (tr_recorder (snd (Stock_buy self tim pr qty))) =
           (if i \<in> set (map fst (tr_recorder self)) then map fst (tr_recorder self)
            else map fst (tr_recorder self) @ [i])"
  by (simp add: Stock_buy_eq [OF assms] update_conv' update_keys)

theorem Stock_buy_overwrites_witness:
  "fst (Stock_buy (snd (Stock_buy main_stock ''2024-0205-10'' 25.6 200))
         ''2024-0205-10'' 27.85 100) = Inr () \<and>
   map_of (tr_recorder (snd (Stock_buy (snd (Stock_buy main_stock ''2024-0205-10'' 25.6 200))
         ''2024-0205-10'' 27.85 100))) 2024020510 =
     Some \<lparr>stock = stock_ref main_stock, timing = ''2024-0205-10'', id_tr = 2024020510,
           price = 27.85, quantity = 100, empty_flag = False, sells = []\<rparr> \<and>
   map fst (tr_recorder (snd (Stock_buy (snd (Stock_buy main_stock ''2024-0205-10'' 25.6 200))
         ''2024-0205-10'' 27.85 100))) = [2024020510]"
proof -
  let ?s1 = "snd (Stock_buy main_stock ''2024-0205-10'' 25.6 200)"
  have s1: "tr_recorder ?s1 =
      [(2024020510,
        \<lparr>stock = stock_ref main_stock, timing = ''2024-0205-10'', id_tr = 2024020510,
         price = 25.6, quantity = 200, empty_flag = False, sells = []\<rparr>)]"
    "stock_ref ?s1 = stock_ref main_stock"
    by (simp_all add: Stock_buy_eq [OF timing2id_example(1)] main_stock_def Stock_init_def
        stock_ref_def)
  from Stock_buy_overwrites [OF timing2id_example(1), of ?s1 "27.85" 100] s1
  show ?thesis by simp
qed

theorem Stock_buy_duplicate_counterexample:
  "timing2id ''2024-0205-10'' = Inr 2024020510 \<and>
   map_of (tr_recorder (snd (Stock_buy main_stock ''2024-0205-10'' 25.6 200))) 2024020510 =
     Some \<lparr>stock = stock_ref main_stock, timing = ''2024-0205-10'', id_tr = 2024020510,
           price = 25.6, quantity = 200, empty_flag = False, sells = []\<rparr> \<and>
   fst (Stock_buy (snd (Stock_buy main_stock ''2024-0205-10'' 25.6 200))
         ''2024-0205-10'' 27.85 100) = Inr ()"
  by (simp add: Stock_buy_eq [OF timing2id_example(1)] timing2id_example(1)
      main_stock_def Stock_init_def stock_ref_def)

text \<open>
  Claim C6, amended. \<^verbatim>\<open>Stock.sell\<close> constructs the sell first, so a malformed timing of
  the sell raises its format error before any lookup; a malformed \<^verbatim>\<open>buy_timing\<close> raises
  next. With both timings well formed, and \<open>k\<close> the identifier of \<^verbatim>\<open>buy_timing\<close>:
  when the dictionary has no buy under \<open>k\<close> the call raises \<^verbatim>\<open>KeyError\<close> (the
  specification's not-found error); otherwise the outcome is that of the buy's
  \<^verbatim>\<open>sell\<close> on the new sell, and the entry under \<open>k\<close> is the buy that call leaves.
  In the three failing cases the stock is unchanged. As the claim is written, a missing buy
  always gives the not-found error; with a malformed sell timing it does not.
\<close>

theorem Stock_sell_lookup:
  "(\<forall>e. timing2id tim = Inl e \<longrightarrow>
      Stock_sell self buy_timing tim pr qty = (Inl e, self)) \<and>
   (\<forall>j e. timing2id tim = Inr j \<and> timing2id buy_timing = Inl e \<longrightarrow>
      Stock_sell self buy_timing tim pr qty = (Inl e, self)) \<and>
   (\<forall>j k. timing2id tim = Inr j \<and> timing2id buy_timing = Inr k \<longrightarrow>
      (map_of (tr_recorder self) k = None \<longrightarrow>
         Stock_sell self buy_timing tim pr qty = (Inl (KeyError k), self)) \<and>
      (\<forall>trans_buy. map_of (tr_recorder self) k = Some trans_buy \<longrightarrow>
         Stock_sell self buy_timing tim pr qty =
           (fst (BuyTransaction_sell trans_buy
                   \<lparr>stock = stock_ref self, timing = tim, id_tr = j, price = pr,
                    quantity = qty\<rparr>),
            self\<lparr>tr_recorder :=
              AList.update k
                (snd (BuyTransaction_sell trans_buy
                   \<lparr>stock = stock_ref self, timing = tim, id_tr = j, price = pr,
                    quantity = qty\<rparr>))
                (tr_recorder self)\<rparr>)))"
  by (simp add: Stock_sell_def SellTransaction_init_def Transaction_init_def
      split: prod.splits)

theorem Stock_sell_order_counterexample:
  "timing2id ''2024-0205-10'' = Inr 2024020510 \<and>
   map_of (tr_recorder main_stock) 2024020510 = None \<and>
   Stock_sell main_stock ''2024-0205-10'' ''2024-0312'' 36.36 200 =
     (Inl (AssertionError None), main_stock)"
proof -
  have "timing2id ''2024-0312'' = Inl (AssertionError None)"
    by (simp add: timing2id_def)
  then show ?thesis
    by (simp add: Stock_sell_def SellTransaction_init_def Transaction_init_def
        timing2id_example(1) main_stock_def Stock_init_def)
qed


theorem Stock_sell_lookup_witness:
  "Stock_sell main_stock ''2024-0205-10'' ''2024-0312'' 36.36 200 =
     (Inl (AssertionError None), main_stock) \<and>
   Stock_sell main_stock ''2024-0205-1a'' ''2024-0312-14'' 36.36 200 =
     (Inl ValueError, main_stock) \<and>
   Stock_sell main_stock ''2024-0205-10'' ''2024-0312-14'' 36.36 200 =
     (Inl (KeyError 2024020510), main_stock) \<and>
   Stock_sell (snd (Stock_buy main_stock ''2024-0205-10'' 25.6 200))
       ''2024-0205-10'' ''2024-0312-14'' 36.36 120 =
     (Inr (),
      main_stock\<lparr>tr_recorder :=
        [(2024020510,
          \<lparr>stock = stock_ref main_stock, timing = ''2024-0205-10'', id_tr = 2024020510,
           price = 25.6, quantity = 200, empty_flag = False,
           sells = [\<lparr>stock = stock_ref main_stock, timing = ''2024-0312-14'',
                     id_tr = 2024031214, price = 36.36, quantity = 120\<rparr>]\<rparr>)]\<rparr>)"
proof -
  let ?s1 = "snd (Stock_buy main_stock ''2024-0205-10'' 25.6 200)"
  have bad: "timing2id ''2024-0312'' = Inl (AssertionError None)"
    "timing2id ''2024-0205-1a'' = Inl ValueError"
    by (simp_all add: timing2id_def int_py_def strip_py_def isspace_py_def digit_py_def)
  have s0: "map_of (tr_recorder main_stock) 2024020510 = None"
    by (simp add: main_stock_def Stock_init_def)
  have s1: "?s1 = main_stock\<lparr>tr_recorder :=
      [(2024020510,
        \<lparr>stock = stock_ref main_stock, timing = ''2024-0205-10'', id_tr = 2024020510,
         price = 25.6, quantity = 200, empty_flag = False, sells = []\<rparr>)]\<rparr>"
    by (simp add: Stock_buy_eq [OF timing2id_example(1)] main_stock_def Stock_init_def)
  have r: "stock_ref (main_stock\<lparr>tr_recorder := xs\<rparr>) = stock_ref main_stock" for xs
    by (simp add: stock_ref_def)
  from Stock_sell_lookup [of "''2024-0312''" main_stock "''2024-0205-10''" "36.36" 200] bad(1)
  have f: "Stock_sell main_stock ''2024-0205-10'' ''2024-0312'' 36.36 200 =
     (Inl (AssertionError None), main_stock)"
    by simp
  from Stock_sell_lookup [of "''2024-0312-14''" main_stock "''2024-0205-1a''" "36.36" 200]
    bad(2) timing2id_example(3)
  have g: "Stock_sell main_stock ''2024-0205-1a'' ''2024-0312-14'' 36.36 200 =
     (Inl ValueError, main_stock)"
    by simp
  from Stock_sell_lookup [of "''2024-0312-14''" main_stock "''2024-0205-10''" "36.36" 200]
    timing2id_example(1,3) s0
  have k: "Stock_sell main_stock ''2024-0205-10'' ''2024-0312-14'' 36.36 200 =
     (Inl (KeyError 2024020510), main_stock)"
    by simp
  from Stock_sell_lookup [of "''2024-0312-14''" ?s1 "''2024-0205-10''" "36.36" 120]
    timing2id_example(1,3)
  have d: "Stock_sell ?s1 ''2024-0205-10'' ''2024-0312-14'' 36.36 120 =
     (Inr (),
      main_stock\<lparr>tr_recorder :=
        [(2024020510,
          \<lparr>stock = stock_ref main_stock, timing = ''2024-0205-10'', id_tr = 2024020510,
           price = 25.6, quantity = 200, empty_flag = False,
           sells = [\<lparr>stock = stock_ref main_stock, timing = ''2024-0312-14'',
                     id_tr = 2024031214, price = 36.36, quantity = 120\<rparr>]\<rparr>)]\<rparr>)"
    unfolding s1 by (simp add: r BuyTransaction_sell_eq quantity_left_eq)
  from f g k d show ?thesis
    by (intro conjI)
qed

section \<open>The program's own run\<close>

lemma main_buy_fees:
  fixes b0 :: BuyTransaction
  assumes "stock b0 = stock_ref main_stock" "price b0 = 25.6" "quantity b0 = 200"
  shows "BuyTransaction_service_percent b0 = add_py (float_py 0.0003) (float_py 0.00002)"
    and "BuyTransaction_service_percent b0 = Num (368934881474191 / 2 ^ 60)"
    and "fee b0 = Inr (float_py 5120.0)"
    and "fee_final BuyTransaction_service_percent b0 =
           Inr (mul_py (float_py 5120.0) (sub_py (Num 1) (float_py 0.00032)))"
proof -
  show p: "BuyTransaction_service_percent b0 = add_py (float_py 0.0003) (float_py 0.00002)"
    unfolding BuyTransaction_service_percent_def assms main_stock_rates ..
  then show p': "BuyTransaction_service_percent b0 = Num (368934881474191 / 2 ^ 60)"
    unfolding main_buy_percent .
  show f: "fee b0 = Inr (float_py 5120.0)"
    unfolding fee_def assms float_of_int_200 sum.case main_buy_fee
    unfolding float_literals ..
  show "fee_final BuyTransaction_service_percent b0 =
           Inr (mul_py (float_py 5120.0) (sub_py (Num 1) (float_py 0.00032)))"
    unfolding fee_final_def f sum.case p'
    unfolding float_literals
    unfolding main_buy_final ..
qed

lemma main_sell_fees':
  fixes s0 :: SellTransaction
  assumes "stock s0 = stock_ref main_stock" "price s0 = 36.36" "quantity s0 = 200"
  shows "SellTransaction_service_percent s0 = float_py 0.00082"
    and "fee s0 = Inr (float_py 7272.0)"
    and "fee_final SellTransaction_service_percent s0 =
           Inr (mul_py (float_py 7272.0) (sub_py (Num 1) (float_py 0.00082)))"
proof -
  show p: "SellTransaction_service_percent s0 = float_py 0.00082"
    unfolding SellTransaction_service_percent_def assms main_stock_rates main_sell_percent
    unfolding float_literals ..
  show f: "fee s0 = Inr (float_py 7272.0)"
    unfolding fee_def assms float_of_int_200 sum.case main_sell_fee
    unfolding float_literals ..
  show "fee_final SellTransaction_service_percent s0 =
           Inr (mul_py (float_py 7272.0) (sub_py (Num 1) (float_py 0.00082)))"
    unfolding fee_final_def f sum.case p ..
qed

lemma main_run:
  "Stock_buy main_stock ''2024-0205-10'' 25.6 200 =
      (Inr (), main_stock\<lparr>tr_recorder :=
        [(2024020510,
          \<lparr>stock = stock_ref main_stock, timing = ''2024-0205-10'', id_tr = 2024020510,
           price = 25.6, quantity = 200, empty_flag = False, sells = []\<rparr>)]\<rparr>)"
  "Stock_sell (main_stock\<lparr>tr_recorder :=
        [(2024020510,
          \<lparr>stock = stock_ref main_stock, timing = ''2024-0205-10'', id_tr = 2024020510,
           price = 25.6, quantity = 200, empty_flag = False, sells = []\<rparr>)]\<rparr>)
      ''2024-0205-10'' ''2024-0312-14'' 36.36 200 =
      (Inr (), main_stock\<lparr>tr_recorder :=
        [(2024020510,
          \<lparr>stock = stock_ref main_stock, timing = ''2024-0205-10'', id_tr = 2024020510,
           price = 25.6, quantity = 200, empty_flag = True,
           sells = [\<lparr>stock = stock_ref main_stock, timing = ''2024-0312-14'',
                     id_tr = 2024031214, price = 36.36, quantity = 200\<rparr>]\<rparr>)]\<rparr>)"
  "map_of (tr_recorder (main_stock\<lparr>tr_recorder :=
        [(2024020510,
          \<lparr>stock = stock_ref main_stock, timing = ''2024-0205-10'', id_tr = 2024020510,
           price = 25.6, quantity = 200, empty_flag = True,
           sells = [\<lparr>stock = stock_ref main_stock, timing = ''2024-0312-14'',
                     id_tr = 2024031214, price = 36.36, quantity = 200\<rparr>]\<rparr>)]\<rparr>)) 2024020510 =
     Some \<lparr>stock = stock_ref main_stock, timing = ''2024-0205-10'', id_tr = 2024020510,
           price = 25.6, quantity = 200, empty_flag = True,
           sells = [\<lparr>stock = stock_ref main_stock, timing = ''2024-0312-14'',
                     id_tr = 2024031214, price = 36.36, quantity = 200\<rparr>]\<rparr>"
proof -
  have r: "stock_ref (main_stock\<lparr>tr_recorder := xs\<rparr>) = stock_ref main_stock" for xs
    by (simp add: stock_ref_def)
  show "Stock_buy main_stock ''2024-0205-10'' 25.6 200 =
      (Inr (), main_stock\<lparr>tr_recorder :=
        [(2024020510,
          \<lparr>stock = stock_ref main_stock, timing = ''2024-0205-10'', id_tr = 2024020510,
           price = 25.6, quantity = 200, empty_flag = False, sells = []\<rparr>)]\<rparr>)"
    by (simp add: Stock_buy_eq [OF timing2id_example(1)] main_stock_def Stock_init_def)
  show "Stock_sell (main_stock\<lparr>tr_recorder :=
        [(2024020510,
          \<lparr>stock = stock_ref main_stock, timing = ''2024-0205-10'', id_tr = 2024020510,
           price = 25.6, quantity = 200, empty_flag = False, sells = []\<rparr>)]\<rparr>)
      ''2024-0205-10'' ''2024-0312-14'' 36.36 200 =
      (Inr (), main_stock\<lparr>tr_recorder :=
        [(2024020510,
          \<lparr>stock = stock_ref main_stock, timing = ''2024-0205-10'', id_tr = 2024020510,
           price = 25.6, quantity = 200, empty_flag = True,
           sells = [\<lparr>stock = stock_ref main_stock, timing = ''2024-0312-14'',
                     id_tr = 2024031214, price = 36.36, quantity = 200\<rparr>]\<rparr>)]\<rparr>)"
    unfolding Stock_sell_def SellTransaction_init_def Transaction_init_def timing2id_example
    by (simp add: r BuyTransaction_sell_eq quantity_left_eq)
  show "map_of (tr_recorder (main_stock\<lparr>tr_recorder :=
        [(2024020510,
          \<lparr>stock = stock_ref main_stock, timing = ''2024-0205-10'', id_tr = 2024020510,
           price = 25.6, quantity = 200, empty_flag = True,
           sells = [\<lparr>stock = stock_ref main_stock, timing = ''2024-0312-14'',
                     id_tr = 2024031214, price = 36.36, quantity = 200\<rparr>]\<rparr>)]\<rparr>)) 2024020510 =
     Some \<lparr>stock = stock_ref main_stock, timing = ''2024-0205-10'', id_tr = 2024020510,
           price = 25.6, quantity = 200, empty_flag = True,
           sells = [\<lparr>stock = stock_ref main_stock, timing = ''2024-0312-14'',
                     id_tr = 2024031214, price = 36.36, quantity = 200\<rparr>]\<rparr>"
    by simp
qed

text \<open>
  Claim C7, amended. On the stock of line 153 (commission 0.0003, stamp duty 0.0005,
  transfer fee 0.00002), after \<^verbatim>\<open>buy('2024-0205-10', 25.6, 200)\<close> and
  \<^verbatim>\<open>sell('2024-0205-10', '2024-0312-14', 36.36, 200)\<close> both calls have succeeded. The buy
  stored under \<open>2024020510\<close> has as service percent the float sum \<open>0.0003 + 0.00002\<close>,
  which is \<open>368934881474191 / 2^60\<close> (printed 0.00031999999999999997), the float next below
  0.00032 and not 0.00032 itself. The rest is as claimed, in float arithmetic: the buy's
  fee is 5120.0 and its final fee equals \<open>5120.0 * (1 - 0.00032)\<close>; the one sell has service
  percent 0.00082, fee 7272.0 and final fee \<open>7272.0 * (1 - 0.00082)\<close>; \<open>quantity_left\<close>
  is 0 and the \<^verbatim>\<open>empty\<close> flag is set.
\<close>

theorem main_scenario:
  "(case Stock_buy main_stock ''2024-0205-10'' 25.6 200 of
      (r1, s1) \<Rightarrow>
        (case Stock_sell s1 ''2024-0205-10'' ''2024-0312-14'' 36.36 200 of
           (r2, s2) \<Rightarrow>
             r1 = Inr () \<and> r2 = Inr () \<and>
             (case map_of (tr_recorder s2) 2024020510 of
                None \<Rightarrow> False
              | Some b \<Rightarrow>
                  id_tr b = 2024 * 10 ^ 6 + 205 * 10 ^ 2 + 10 \<and>
                  BuyTransaction_service_percent b =
                    add_py (float_py 0.0003) (float_py 0.00002) \<and>
                  BuyTransaction_service_percent b = Num (368934881474191 / 2 ^ 60) \<and>
                  fee b = Inr (float_py 5120.0) \<and>
                  fee_final BuyTransaction_service_percent b =
                    Inr (mul_py (float_py 5120.0) (sub_py (Num 1) (float_py 0.00032))) \<and>
                  (case sells b of
                     [s] \<Rightarrow>
                       SellTransaction_service_percent s = float_py 0.00082 \<and>
                       fee s = Inr (float_py 7272.0) \<and>
                       fee_final SellTransaction_service_percent s =
                         Inr (mul_py (float_py 7272.0) (sub_py (Num 1) (float_py 0.00082)))
                   | _ \<Rightarrow> False) \<and>
                  fst (quantity_left b) = 0 \<and>
                  empty_flag b \<and>
                  empty_flag (snd (quantity_left b)))))"
proof -
  let ?S = "\<lparr>stock = stock_ref main_stock, timing = ''2024-0312-14'',
             id_tr = 2024031214, price = 36.36, quantity = 200\<rparr>"
  let ?B = "\<lparr>stock = stock_ref main_stock, timing = ''2024-0205-10'', id_tr = 2024020510,
             price = 25.6, quantity = 200, empty_flag = True, sells = [?S]\<rparr>"
  have selB: "stock ?B = stock_ref main_stock" "price ?B = 25.6" "quantity ?B = 200"
    and selS: "stock ?S = stock_ref main_stock" "price ?S = 36.36" "quantity ?S = 200"
    by simp_all
  have sl: "sells ?B = [?S]" by simp
  have i: "id_tr ?B = 2024 * 10 ^ 6 + 205 * 10 ^ 2 + 10" by simp
  have q: "fst (quantity_left ?B) = 0" "empty_flag ?B" "empty_flag (snd (quantity_left ?B))"
    by (simp_all add: quantity_left_eq)
  note b = main_buy_fees [OF selB]
  note s = main_sell_fees' [OF selS]
  show ?thesis
    unfolding main_run prod.case option.case sl list.case
    using i b s q by (intro conjI refl)
qed

theorem main_scenario_percent_counterexample:
  "(case map_of (tr_recorder (snd (Stock_sell
        (snd (Stock_buy main_stock ''2024-0205-10'' 25.6 200))
        ''2024-0205-10'' ''2024-0312-14'' 36.36 200))) 2024020510 of
      None \<Rightarrow> False
    | Some b \<Rightarrow>
        BuyTransaction_service_percent b = Num (368934881474191 / 2 ^ 60) \<and>
        float_py 0.00032 = Num (5902958103587057 / 2 ^ 64) \<and>
        BuyTransaction_service_percent b \<noteq> float_py 0.00032)"
proof -
  let ?S = "\<lparr>stock = stock_ref main_stock, timing = ''2024-0312-14'',
             id_tr = 2024031214, price = 36.36, quantity = 200\<rparr>"
  let ?B = "\<lparr>stock = stock_ref main_stock, timing = ''2024-0205-10'', id_tr = 2024020510,
             price = 25.6, quantity = 200, empty_flag = True, sells = [?S]\<rparr>"
  have selB: "stock ?B = stock_ref main_stock" "price ?B = 25.6" "quantity ?B = 200"
    by simp_all
  note b = main_buy_fees(2) [OF selB]
  have ne: "Num (368934881474191 / 2 ^ 60) \<noteq> Num (5902958103587057 / 2 ^ 64)"
    by simp
  show ?thesis
    unfolding main_run snd_conv option.case b
    unfolding float_literals
    using ne by (intro conjI refl)
qed

end
